theory Spec2Isabelle
  imports Complex_Main
begin

section \<open>BMI calculator: the calculation functions of \<open>BMI_calculator.py\<close>\<close>

text \<open>
  The model covers the five calculation functions of the source (lines 72 to 162) and the
  weight goal block of the main script (lines 247 and 264 to 280).

  Numbers. The source computes with Python floats (the widgets hand over floats for height
  and weight and an int for age). The specification states every formula over the real
  numbers, and so does this model: a number is a \<^typ>\<open>real\<close>, an age an \<^typ>\<open>int\<close>,
  and every arithmetic operation is exact. The binary rounding error of the single float
  operations, overflow and underflow are not part of the model.

  Strings. A Python string is a \<^typ>\<open>string\<close>, holding its UTF-8 bytes.

  Errors. The only operation of these functions that can raise is the division in
  \<open>calculate_bmi\<close>; a result that may be an exception is a sum with the error on the left.
\<close>

subsection \<open>Python built-ins\<close>

text \<open>
  \<open>ZeroDivisionError\<close> is the exception of Python's \<open>/\<close>. \<open>InvalidInput\<close> is the error the
  specification names in its error taxonomy; no statement of the source raises it, it is in
  the type so that statements about it can be written.
\<close>

datatype error = ZeroDivisionError | InvalidInput

text \<open>Python's \<open>a / b\<close>.\<close>

definition py_truediv :: "real \<Rightarrow> real \<Rightarrow> error + real" where
  "py_truediv a b = (if b = 0 then Inl ZeroDivisionError else Inr (a / b))"

text \<open>
  Python's \<open>round(x)\<close>: the nearest integer, a tie going to the even neighbour.
\<close>

definition py_round :: "real \<Rightarrow> int" where
  "py_round x =
     (let f = \<lfloor>x\<rfloor>; d = x - of_int f
      in if d < 1 / 2 then f
         else if 1 / 2 < d then f + 1
         else if even f then f else f + 1)"

text \<open>Python's \<open>round(x, 1)\<close>: the nearest multiple of one tenth, ties to even.\<close>

definition py_round1 :: "real \<Rightarrow> real" where
  "py_round1 x = of_int (py_round (x * 10)) / 10"





subsection \<open>The calculation functions\<close>

text \<open>\<open>calculate_bmi(weight, height, unit)\<close>, lines 72 to 84.\<close>

definition calculate_bmi :: "real \<Rightarrow> real \<Rightarrow> string \<Rightarrow> error + real" where
  "calculate_bmi weight height unit =
     (let (weight_kg, height_m) =
            (if unit = ''Imperial'' then (weight * 0.453592, height * 0.0254)
             else (weight, height / 100))
      in case py_truediv weight_kg (height_m ^ 2) of
           Inl e \<Rightarrow> Inl e
         | Inr bmi \<Rightarrow> Inr (py_round1 bmi))"

text \<open>\<open>get_bmi_category(bmi)\<close>, lines 86 to 95.\<close>

definition get_bmi_category :: "real \<Rightarrow> string" where
  "get_bmi_category bmi =
     (if bmi < 18.5 then ''Underweight''
      else if bmi < 25 then ''Normal Weight''
      else if bmi < 30 then ''Overweight''
      else ''Obese'')"

text \<open>\<open>get_bmi_color(bmi)\<close>, lines 97 to 106.\<close>

definition get_bmi_color :: "real \<Rightarrow> string" where
  "get_bmi_color bmi =
     (if bmi < 18.5 then ''#3182ce''
      else if bmi < 25 then ''#38a169''
      else if bmi < 30 then ''#d69e2e''
      else ''#e53e3e'')"



text \<open>
  \<open>get_recommendations(bmi_category, age, gender)\<close>, lines 133 to 162. Each advice string
  starts with an emoji, written here as the bytes of its UTF-8 encoding.
\<close>

definition get_recommendations :: "string \<Rightarrow> int \<Rightarrow> string \<Rightarrow> string list" where
  "get_recommendations bmi_category age gender =
     (if bmi_category = ''Underweight'' then
        [[CHR 0xF0, CHR 0x9F, CHR 0x8D, CHR 0xBD, CHR 0xEF, CHR 0xB8, CHR 0x8F]
           @ '' Focus on nutrient-dense, calorie-rich foods like nuts, seeds, avocados, and lean proteins'',
         [CHR 0xF0, CHR 0x9F, CHR 0x92, CHR 0xAA]
           @ '' Include strength training exercises to build muscle mass along with cardiovascular fitness'',
         [CHR 0xF0, CHR 0x9F, CHR 0x91, CHR 0xA8, CHR 0xE2, CHR 0x80, CHR 0x8D, CHR 0xE2, CHR 0x9A,
          CHR 0x95, CHR 0xEF, CHR 0xB8, CHR 0x8F]
           @ '' Consider consulting with a nutritionist to develop a healthy weight gain plan'']
      else if bmi_category = ''Normal Weight'' then
        [[CHR 0xE2, CHR 0x9A, CHR 0x96, CHR 0xEF, CHR 0xB8, CHR 0x8F]
           @ '' Maintain your current healthy lifestyle with balanced nutrition and regular exercise'',
         [CHR 0xF0, CHR 0x9F, CHR 0x8F, CHR 0x83, CHR 0xE2, CHR 0x80, CHR 0x8D, CHR 0xE2, CHR 0x99,
          CHR 0x82, CHR 0xEF, CHR 0xB8, CHR 0x8F]
           @ '' Continue with 150 minutes of moderate aerobic activity or 75 minutes vigorous activity weekly'',
         [CHR 0xF0, CHR 0x9F, CHR 0x8D, CHR 0x8E]
           @ '' Focus on whole foods, fruits, vegetables, lean proteins, and whole grains'']
      else if bmi_category = ''Overweight'' then
        [[CHR 0xF0, CHR 0x9F, CHR 0x93, CHR 0x88]
           @ '' Aim for gradual weight loss of 1-2 pounds per week through caloric deficit'',
         [CHR 0xF0, CHR 0x9F, CHR 0x9A, CHR 0xB4, CHR 0xE2, CHR 0x80, CHR 0x8D, CHR 0xE2, CHR 0x99,
          CHR 0x82, CHR 0xEF, CHR 0xB8, CHR 0x8F]
           @ '' Increase physical activity to 300+ minutes of moderate exercise per week'',
         [CHR 0xF0, CHR 0x9F, CHR 0xA5, CHR 0x95]
           @ '' Focus on portion control and include more vegetables, lean proteins, and whole grains'']
      else
        [[CHR 0xF0, CHR 0x9F, CHR 0x91, CHR 0xA8, CHR 0xE2, CHR 0x80, CHR 0x8D, CHR 0xE2, CHR 0x9A,
          CHR 0x95, CHR 0xEF, CHR 0xB8, CHR 0x8F]
           @ '' Consult with a healthcare provider to develop a comprehensive weight management plan'',
         [CHR 0xE2, CHR 0x9D, CHR 0xA4, CHR 0xEF, CHR 0xB8, CHR 0x8F]
           @ '' Start with low-impact exercises and gradually increase intensity as fitness improves'',
         [CHR 0xF0, CHR 0x9F, CHR 0x93, CHR 0x85]
           @ '' Consider working with a registered dietitian for personalized meal planning''])"

subsection \<open>The weight goal of the main script\<close>



subsection \<open>Notions of the specification\<close>




text \<open>The colour the specification assigns to each category.\<close>

definition category_color :: "string \<Rightarrow> string" where
  "category_color category =
     (if category = ''Underweight'' then ''#3182ce''
      else if category = ''Normal Weight'' then ''#38a169''
      else if category = ''Overweight'' then ''#d69e2e''
      else ''#e53e3e'')"


section \<open>Properties\<close>

subsection \<open>Rounding\<close>









subsection \<open>The value of \<open>calculate_bmi\<close>\<close>


lemma calculate_bmi_zero: "calculate_bmi weight 0 unit = Inl ZeroDivisionError"
  by (simp add: calculate_bmi_def py_truediv_def)



subsection \<open>BMI\<close>





text \<open>Two different weights with the same rounded BMI, 22.9.\<close>

lemma calculate_bmi_plateau:
  "calculate_bmi 70 175 ''Metric'' = calculate_bmi 70.1 175 ''Metric''"
  by code_simp

subsection \<open>Category and colour\<close>

text \<open>
  Claim C2. For every real \<open>bmi\<close>, \<open>get_bmi_category\<close> returns Underweight exactly when
  \<open>bmi < 18.5\<close>, Normal Weight exactly when \<open>18.5 \<le> bmi < 25\<close>, Overweight exactly when
  \<open>25 \<le> bmi < 30\<close> and Obese exactly when \<open>30 \<le> bmi\<close>; a boundary value belongs to the
  upper category: 18.5 is Normal Weight, 25.0 Overweight, 30.0 Obese.
\<close>

theorem get_bmi_category_thresholds:
  "(get_bmi_category bmi = ''Underweight'' \<longleftrightarrow> bmi < 18.5)
   \<and> (get_bmi_category bmi = ''Normal Weight'' \<longleftrightarrow> 18.5 \<le> bmi \<and> bmi < 25)
   \<and> (get_bmi_category bmi = ''Overweight'' \<longleftrightarrow> 25 \<le> bmi \<and> bmi < 30)
   \<and> (get_bmi_category bmi = ''Obese'' \<longleftrightarrow> 30 \<le> bmi)
   \<and> get_bmi_category 18.5 = ''Normal Weight''
   \<and> get_bmi_category 25.0 = ''Overweight''
   \<and> get_bmi_category 30.0 = ''Obese''"
  by (simp add: get_bmi_category_def)

text \<open>
  Claim C10. For every real \<open>bmi\<close>, \<open>get_bmi_color\<close> returns the colour assigned to the
  category \<open>get_bmi_category\<close> returns for it: the two functions cut the reals at the same
  thresholds and never disagree.
\<close>

theorem get_bmi_color_matches_category:
  "get_bmi_color bmi = category_color (get_bmi_category bmi)"
  by (simp add: get_bmi_color_def get_bmi_category_def category_color_def)

subsection \<open>Recommendations\<close>

text \<open>
  Claim C8. For every category, \<open>get_recommendations\<close> returns the same list of advice
  strings, in the same order, for all values of age and gender: the result depends on the
  category only.
\<close>

theorem get_recommendations_ignores_age_gender:
  "get_recommendations category age gender = get_recommendations category age' gender'"
  unfolding get_recommendations_def by (rule refl)

subsection \<open>Ideal weight and basal metabolic rate\<close>





subsection \<open>Values outside the enumerations, and inputs that are not positive\<close>






subsection \<open>Weight goal\<close>



end
